theory Spec2Isabelle
  imports Main "HOL-Library.Sublist"
begin

section \<open>gh-notifications: the notification pipeline of \<open>main.go\<close>\<close>

text \<open>
  The program lists GitHub notifications, filters them by subject type, repository and
  subject state, and hands every surviving notification to an action (print, or
  unsubscribe). Everything it does to the outside world is a call of the GitHub client
  or a line on standard output. The model threads the list of these events (the
  \<^emph>\<open>trace\<close>) through every function; the replies of the remote service are functions of
  the trace so far, so a reply may depend on everything that happened before it.
\<close>

subsection \<open>Data\<close>

text \<open>
  The fields of go-github's \<open>Notification\<close> are pointers, read in the source only through
  the nil-safe getters (\<open>GetSubject\<close>, \<open>GetType\<close>, ...), which return the zero value for
  a missing field. The records hold what the getters return and are named after them.
\<close>

record Subject =
  GetTitle :: string
  GetURL :: string
  GetType :: string

record Repository =
  GetFullName :: string

record Notification =
  GetID :: string
  GetUnread :: bool
  GetReason :: string
  GetRepository :: Repository
  GetSubject :: Subject

text \<open>
  The detail resource behind a subject URL, as far as the program reads it:
  \<open>GetState\<close> and \<open>GetMerged\<close> of the decoded \<open>github.PullRequest\<close>, \<open>GetState\<close> of the
  decoded \<open>github.Issue\<close>.
\<close>

record Detail =
  GetState :: string
  GetMerged :: bool

text \<open>\<open>type Filters struct\<close>, lines 14 to 20.\<close>

record Filters =
  repository :: string
  subjectType :: string
  subjectState :: string
  listRead :: bool
  unsubscribeUnread :: bool

text \<open>
  Errors. \<open>External\<close> is an error made outside this program (transport, decoding, URL
  parsing, command-line parsing); \<open>Errorf msg err\<close> is \<open>fmt.Errorf("msg, %w", err)\<close>;
  \<open>UnhandledSubjectType ty\<close> is \<open>fmt.Errorf("unhandled subject type %q", ty)\<close>.
\<close>

datatype error =
  External string
| Errorf string error
| UnhandledSubjectType string

text \<open>One constructor for each print statement of the source, with its arguments.\<close>

datatype printed =
  TokenMissing
    \<comment> \<open>line 63: \<open>Println("Please provide an API token using the GITHUB_TOKEN env var.")\<close>\<close>
| NotificationLine string string
    \<comment> \<open>line 89: \<open>Printf("%-80s %s\n", title, state)\<close>\<close>
| Unsubscribed string string string string
    \<comment> \<open>line 116: the confirmation line with title, thread id, reason and subject URL\<close>
| FailedToProcess error
    \<comment> \<open>lines 95 and 122: \<open>Printf("Failed to process notifications, %s", err)\<close>\<close>
| ErrorLine error
    \<comment> \<open>line 198: \<open>Println(err)\<close>\<close>

datatype event =
  ListNotifications bool
    \<comment> \<open>\<open>client.Activity.ListNotifications\<close> with \<open>NotificationListOptions{All: b}\<close>\<close>
| Do string
    \<comment> \<open>\<open>client.Do\<close> of a GET request for the URL\<close>
| MarkThreadRead string
| DeleteThreadSubscription string
| Print printed

text \<open>
  The world outside the program: the environment variable, and the reply of each call
  given the trace before it. \<open>NewRequest\<close> is \<open>http.NewRequest("GET", url, nil)\<close>, which
  fails on a URL it cannot parse and talks to nobody.
\<close>

record world =
  GITHUB_TOKEN :: string
  ListNotifications_reply :: "event list \<Rightarrow> bool \<Rightarrow> error + Notification list"
  NewRequest :: "string \<Rightarrow> error option"
  Do_reply :: "event list \<Rightarrow> string \<Rightarrow> error + Detail"
  MarkThreadRead_reply :: "event list \<Rightarrow> string \<Rightarrow> error option"
  DeleteThreadSubscription_reply :: "event list \<Rightarrow> string \<Rightarrow> error option"

text \<open>
  What the pipeline did with a notification, in the order it did it. This log is not
  program state: it records the calls made by the loop of \<open>forEachNotifications\<close>, so
  that theorems can speak about them: \<open>Resolved n r\<close> is a call of the resolver on \<open>n\<close>
  that returned \<open>r\<close>, \<open>Acted n\<close> is a call of the action on \<open>n\<close>. An action receives and
  returns the trace only and cannot touch the log.
\<close>

datatype call = Resolved Notification "error + string" | Acted Notification

type_synonym action = "Notification \<Rightarrow> event list \<Rightarrow> error option \<times> event list"

subsection \<open>Flag defaults\<close>

text \<open>
  \<open>initCommands\<close>, lines 31 to 58. pflag's \<open>StringVar\<close> and \<open>BoolVar\<close> store the flag's
  default in the variable when the flag is defined, so the value of \<open>filters\<close> before any
  command-line flag is parsed is the result of these assignments in source order,
  starting from \<open>Filters{}\<close>. Both subcommands bind \<open>--state\<close> to the same field.
\<close>

definition initCommands :: Filters where
  "initCommands =
     (let filters = \<lparr>repository = '''', subjectType = '''', subjectState = '''',
                      listRead = False, unsubscribeUnread = False\<rparr>;
          filters = filters\<lparr>repository := ''''\<rparr>;
          filters = filters\<lparr>subjectType := ''PullRequest''\<rparr>;
          filters = filters\<lparr>subjectState := ''''\<rparr>;
          filters = filters\<lparr>listRead := False\<rparr>;
          filters = filters\<lparr>subjectState := ''closed''\<rparr>;
          filters = filters\<lparr>unsubscribeUnread := False\<rparr>
      in filters)"

subsection \<open>The client\<close>

text \<open>
  \<open>mustGHClient\<close>, lines 60 to 75: \<open>Some code\<close> is \<open>os.Exit(code)\<close>, \<open>None\<close> is a client.
\<close>

definition mustGHClient :: "world \<Rightarrow> event list \<Rightarrow> nat option \<times> event list" where
  "mustGHClient w t =
     (if GITHUB_TOKEN w = '''' then (Some 1, t @ [Print TokenMissing]) else (None, t))"

text \<open>\<open>getObject\<close>, lines 185 to 193.\<close>

definition getObject :: "world \<Rightarrow> string \<Rightarrow> event list \<Rightarrow> (error + Detail) \<times> event list" where
  "getObject w url t =
     (case NewRequest w url of
        Some err \<Rightarrow> (Inl err, t)
      | None \<Rightarrow> (Do_reply w t url, t @ [Do url]))"

subsection \<open>Subject state resolver\<close>

text \<open>\<open>resolveNotificationSubjectState\<close>, lines 159 to 183.\<close>

definition resolveNotificationSubjectState ::
    "world \<Rightarrow> Notification \<Rightarrow> event list \<Rightarrow> (error + string) \<times> event list" where
  "resolveNotificationSubjectState w n t =
     (let subject = GetSubject n in
      if GetType subject = ''PullRequest'' then
        (case getObject w (GetURL subject) t of
           (Inl err, t1) \<Rightarrow> (Inl (Errorf ''failed to get pull request details'' err), t1)
         | (Inr pr, t1) \<Rightarrow>
             (let state = GetState pr;
                  state = (if GetMerged pr then ''merged'' else state)
              in (Inr state, t1)))
      else if GetType subject = ''Issue'' then
        (case getObject w (GetURL subject) t of
           (Inl err, t1) \<Rightarrow> (Inl (Errorf ''failed to get issue details'' err), t1)
         | (Inr issue, t1) \<Rightarrow> (Inr (GetState issue), t1))
      else (Inl (UnhandledSubjectType (GetType subject)), t))"

subsection \<open>Filter pipeline\<close>

text \<open>
  The loop of \<open>forEachNotifications\<close>, lines 132 to 156, over the state (trace, call log).
  \<open>continue\<close> is the recursive call on the rest of the listing, \<open>return err\<close> is the
  result \<open>Some err\<close>, and falling out of the loop is \<open>None\<close>.
\<close>

fun forEach_range ::
    "Filters \<Rightarrow> world \<Rightarrow> action \<Rightarrow> Notification list \<Rightarrow> event list \<times> call list
       \<Rightarrow> error option \<times> event list \<times> call list" where
  "forEach_range filters w do [] (t, g) = (None, t, g)"
| "forEach_range filters w do (notif # rest) (t, g) =
     (let subject = GetSubject notif in
      if subjectType filters \<noteq> GetType subject then
        forEach_range filters w do rest (t, g)
      else if repository filters \<noteq> '''' \<and>
              repository filters \<noteq> GetFullName (GetRepository notif) then
        forEach_range filters w do rest (t, g)
      else if subjectState filters \<noteq> '''' then
        (case resolveNotificationSubjectState w notif t of
           (Inl err, t1) \<Rightarrow> (Some err, t1, g @ [Resolved notif (Inl err)])
         | (Inr state, t1) \<Rightarrow>
             if state \<noteq> subjectState filters then
               forEach_range filters w do rest (t1, g @ [Resolved notif (Inr state)])
             else
               (case do notif t1 of
                  (Some err, t2) \<Rightarrow>
                    (Some err, t2, g @ [Resolved notif (Inr state), Acted notif])
                | (None, t2) \<Rightarrow>
                    forEach_range filters w do rest
                      (t2, g @ [Resolved notif (Inr state), Acted notif])))
      else
        (case do notif t of
           (Some err, t2) \<Rightarrow> (Some err, t2, g @ [Acted notif])
         | (None, t2) \<Rightarrow> forEach_range filters w do rest (t2, g @ [Acted notif])))"

text \<open>
  \<open>forEachNotifications\<close>, lines 126 to 157. \<open>opts\<close> is the \<open>All\<close> field of the list
  options; the call log starts empty.
\<close>

definition forEachNotifications ::
    "Filters \<Rightarrow> world \<Rightarrow> bool \<Rightarrow> action \<Rightarrow> event list
       \<Rightarrow> error option \<times> event list \<times> call list" where
  "forEachNotifications filters w opts do t =
     (case ListNotifications_reply w t opts of
        Inl err \<Rightarrow>
          (Some (Errorf ''failed to list notifications'' err), t @ [ListNotifications opts], [])
      | Inr notifications \<Rightarrow>
          forEach_range filters w do notifications (t @ [ListNotifications opts], []))"

subsection \<open>Actions and commands\<close>

text \<open>The closure \<open>printNotification\<close> of \<open>runList\<close>, lines 80 to 91.\<close>

definition printNotification :: "Filters \<Rightarrow> world \<Rightarrow> action" where
  "printNotification filters w n t =
     (let state = subjectState filters in
      if state = '''' then
        (case resolveNotificationSubjectState w n t of
           (Inl err, t1) \<Rightarrow> (Some err, t1)
         | (Inr state, t1) \<Rightarrow>
             (None, t1 @ [Print (NotificationLine (GetTitle (GetSubject n)) state)]))
      else (None, t @ [Print (NotificationLine (GetTitle (GetSubject n)) state)]))"

text \<open>
  \<open>runList\<close>, lines 77 to 97. The result \<open>Some code\<close> is a process that exited inside the
  handler; \<open>None\<close> is a handler that returned.
\<close>

definition runList :: "Filters \<Rightarrow> world \<Rightarrow> event list \<Rightarrow> nat option \<times> event list" where
  "runList filters w t =
     (case mustGHClient w t of
        (Some code, t0) \<Rightarrow> (Some code, t0)
      | (None, t0) \<Rightarrow>
          (case forEachNotifications filters w (listRead filters) (printNotification filters w) t0 of
             (Some err, t1, g) \<Rightarrow> (None, t1 @ [Print (FailedToProcess err)])
           | (None, t1, g) \<Rightarrow> (None, t1)))"

text \<open>
  The closure \<open>unsubscribe\<close> of \<open>runUnsubscribe\<close>, lines 102 to 118; \<open>unsubscribe_delete\<close>
  is its second half, lines 111 to 117, reached from both branches of the test on
  \<open>GetUnread\<close>.
\<close>

definition unsubscribe_delete :: "world \<Rightarrow> action" where
  "unsubscribe_delete w n t =
     (case DeleteThreadSubscription_reply w t (GetID n) of
        Some err \<Rightarrow>
          (Some (Errorf ''failed to unsubscribe from thread'' err),
           t @ [DeleteThreadSubscription (GetID n)])
      | None \<Rightarrow>
          (let subject = GetSubject n in
           (None, t @ [DeleteThreadSubscription (GetID n),
                       Print (Unsubscribed (GetTitle subject) (GetID n) (GetReason n)
                                (GetURL subject))])))"

definition unsubscribe :: "Filters \<Rightarrow> world \<Rightarrow> action" where
  "unsubscribe filters w n t =
     (if GetUnread n then
        (if \<not> unsubscribeUnread filters then (None, t)
         else
           (case MarkThreadRead_reply w t (GetID n) of
              Some err \<Rightarrow>
                (Some (Errorf ''failed to mark thread as read'' err),
                 t @ [MarkThreadRead (GetID n)])
            | None \<Rightarrow> unsubscribe_delete w n (t @ [MarkThreadRead (GetID n)])))
      else unsubscribe_delete w n t)"

text \<open>\<open>runUnsubscribe\<close>, lines 99 to 124.\<close>

definition runUnsubscribe :: "Filters \<Rightarrow> world \<Rightarrow> event list \<Rightarrow> nat option \<times> event list" where
  "runUnsubscribe filters w t =
     (case mustGHClient w t of
        (Some code, t0) \<Rightarrow> (Some code, t0)
      | (None, t0) \<Rightarrow>
          (case forEachNotifications filters w True (unsubscribe filters w) t0 of
             (Some err, t1, g) \<Rightarrow> (None, t1 @ [Print (FailedToProcess err)])
           | (None, t1, g) \<Rightarrow> (None, t1)))"

text \<open>
  What cobra's \<open>rootCommand.Execute()\<close> makes of the command line is an input of the
  model: it fails before any handler runs (unknown command or flag), finds no
  subcommand (it shows the help and returns nil), or runs one of the two handlers, whose
  \<open>Run\<close> functions return nothing, so that \<open>Execute\<close> returns nil after them. What cobra
  prints itself is not part of the trace.
\<close>

datatype invocation = UsageError error | NoSubcommand | ListCommand | UnsubscribeCommand

datatype executed = Exited nat | Returned "error option"

definition Execute ::
    "invocation \<Rightarrow> Filters \<Rightarrow> world \<Rightarrow> event list \<Rightarrow> executed \<times> event list" where
  "Execute cmd filters w t =
     (case cmd of
        UsageError err \<Rightarrow> (Returned (Some err), t)
      | NoSubcommand \<Rightarrow> (Returned None, t)
      | ListCommand \<Rightarrow>
          (case runList filters w t of
             (Some code, t1) \<Rightarrow> (Exited code, t1)
           | (None, t1) \<Rightarrow> (Returned None, t1))
      | UnsubscribeCommand \<Rightarrow>
          (case runUnsubscribe filters w t of
             (Some code, t1) \<Rightarrow> (Exited code, t1)
           | (None, t1) \<Rightarrow> (Returned None, t1)))"

text \<open>
  \<open>main\<close>, lines 195 to 201: the exit status of the process and the final trace.
  Returning from \<open>main\<close> is exit status 0.
\<close>

definition main :: "invocation \<Rightarrow> Filters \<Rightarrow> world \<Rightarrow> event list \<Rightarrow> nat \<times> event list" where
  "main cmd filters w t =
     (case Execute cmd filters w t of
        (Exited code, t1) \<Rightarrow> (code, t1)
      | (Returned (Some err), t1) \<Rightarrow> (1, t1 @ [Print (ErrorLine err)])
      | (Returned None, t1) \<Rightarrow> (0, t1))"

subsection \<open>Reading the call log and the trace\<close>

text \<open>The notifications the action was called on, in call order.\<close>

fun acted :: "call list \<Rightarrow> Notification list" where
  "acted [] = []"
| "acted (Acted n # cs) = n # acted cs"
| "acted (Resolved n r # cs) = acted cs"

text \<open>The \<open>All\<close> options of the listing fetches of a trace, in order.\<close>

fun listings :: "event list \<Rightarrow> bool list" where
  "listings [] = []"
| "listings (ListNotifications b # es) = b # listings es"
| "listings (e # es) = listings es"

text \<open>The first two tests of the loop body (lines 134 and 139), as one predicate.\<close>

definition static_pass :: "Filters \<Rightarrow> Notification \<Rightarrow> bool" where
  "static_pass filters n \<longleftrightarrow>
     subjectType filters = GetType (GetSubject n) \<and>
     (repository filters = '''' \<or> repository filters = GetFullName (GetRepository n))"

text \<open>A result of the loop with a call log put in front of its own.\<close>

definition with_log ::
    "call list \<Rightarrow> error option \<times> event list \<times> call list
       \<Rightarrow> error option \<times> event list \<times> call list" where
  "with_log g p = (fst p, fst (snd p), g @ snd (snd p))"

subsection \<open>Example inputs\<close>

text \<open>
  Three notifications of repository \<open>a/b\<close>: an unread pull request, a commit and an issue;
  and a world with a token in which every call succeeds, the listing holds the three
  notifications, and the detail resource at \<open>u1\<close> is a merged pull request.
\<close>

definition ex_pr :: Notification where
  "ex_pr = \<lparr>GetID = ''1'', GetUnread = True, GetReason = ''mention'',
            GetRepository = \<lparr>GetFullName = ''a/b''\<rparr>,
            GetSubject = \<lparr>GetTitle = ''Fix bug'', GetURL = ''u1'', GetType = ''PullRequest''\<rparr>\<rparr>"

definition ex_commit :: Notification where
  "ex_commit = \<lparr>GetID = ''2'', GetUnread = False, GetReason = ''author'',
                GetRepository = \<lparr>GetFullName = ''a/b''\<rparr>,
                GetSubject = \<lparr>GetTitle = ''Bump'', GetURL = ''u2'', GetType = ''Commit''\<rparr>\<rparr>"

definition ex_issue :: Notification where
  "ex_issue = \<lparr>GetID = ''3'', GetUnread = False, GetReason = ''assign'',
               GetRepository = \<lparr>GetFullName = ''a/b''\<rparr>,
               GetSubject = \<lparr>GetTitle = ''Crash'', GetURL = ''u3'', GetType = ''Issue''\<rparr>\<rparr>"

definition ex_world :: world where
  "ex_world =
     \<lparr>GITHUB_TOKEN = ''tok'',
      ListNotifications_reply = (\<lambda>t all. Inr [ex_pr, ex_commit, ex_issue]),
      NewRequest = (\<lambda>url. None),
      Do_reply = (\<lambda>t url. Inr \<lparr>GetState = ''closed'', GetMerged = (url = ''u1'')\<rparr>),
      MarkThreadRead_reply = (\<lambda>t thread. None),
      DeleteThreadSubscription_reply = (\<lambda>t thread. None)\<rparr>"

section \<open>Properties\<close>

subsection \<open>The loop, one notification at a time\<close>

lemma acted_append: "acted (xs @ ys) = acted xs @ acted ys"
  by (induction xs rule: acted.induct) simp_all

lemma set_acted: "n \<in> set (acted g) \<longleftrightarrow> Acted n \<in> set g"
  by (induction g rule: acted.induct) auto

lemma with_log_simps [simp]:
  "fst (with_log g p) = fst p"
  "fst (snd (with_log g p)) = fst (snd p)"
  "snd (snd (with_log g p)) = g @ snd (snd p)"
  by (simp_all add: with_log_def)

text \<open>Running the loop over \<open>xs @ ys\<close> is running it over \<open>xs\<close> and, unless that returned
  an error, over \<open>ys\<close> from the state reached.\<close>

lemma forEach_range_append:
  "forEach_range filters w do (xs @ ys) s =
     (case forEach_range filters w do xs s of
        (Some err, s') \<Rightarrow> (Some err, s')
      | (None, s') \<Rightarrow> forEach_range filters w do ys s')"
proof (induction xs arbitrary: s)
  case Nil
  show ?case by (cases s) simp
next
  case (Cons x xs)
  show ?case
    by (cases s) (simp add: Cons.IH Let_def split: prod.splits sum.splits option.splits)
qed

text \<open>The loop only appends to the call log it is given.\<close>

lemma forEach_range_log:
  "forEach_range filters w do ns (t, g) =
     (case forEach_range filters w do ns (t, []) of (r, t', g') \<Rightarrow> (r, t', g @ g'))"
proof (induction ns arbitrary: t g)
  case Nil
  show ?case by simp
next
  case (Cons x xs)
  note IH = Cons.IH
  show ?case
    apply (simp add: Let_def split: prod.splits sum.splits option.splits)
    apply (intro conjI impI allI)
    apply (simp_all add: IH [of _ g] IH [of _ "g @ _"] IH [of _ "[_]"] IH [of _ "[_, _]"]
        split: prod.splits)
    done
qed

lemma forEach_range_with_log:
  "forEach_range filters w do ns (t, g) = with_log g (forEach_range filters w do ns (t, []))"
  using forEach_range_log [of filters w do ns t g]
  by (simp add: with_log_def split: prod.splits)

lemma forEach_range_Cons:
  "forEach_range filters w do (x # xs) (t, []) =
     (if \<not> static_pass filters x then forEach_range filters w do xs (t, [])
      else if subjectState filters \<noteq> '''' then
        (case fst (resolveNotificationSubjectState w x t) of
           Inl err \<Rightarrow>
             (Some err, snd (resolveNotificationSubjectState w x t), [Resolved x (Inl err)])
         | Inr state \<Rightarrow>
             if state \<noteq> subjectState filters then
               with_log [Resolved x (Inr state)]
                 (forEach_range filters w do xs (snd (resolveNotificationSubjectState w x t), []))
             else
               (case fst (do x (snd (resolveNotificationSubjectState w x t))) of
                  Some err \<Rightarrow>
                    (Some err, snd (do x (snd (resolveNotificationSubjectState w x t))),
                     [Resolved x (Inr state), Acted x])
                | None \<Rightarrow>
                    with_log [Resolved x (Inr state), Acted x]
                      (forEach_range filters w do xs
                         (snd (do x (snd (resolveNotificationSubjectState w x t))), []))))
      else
        (case fst (do x t) of
           Some err \<Rightarrow> (Some err, snd (do x t), [Acted x])
         | None \<Rightarrow> with_log [Acted x] (forEach_range filters w do xs (snd (do x t), []))))"
  by (simp add: static_pass_def Let_def forEach_range_with_log [of _ _ _ _ _ "[_]"]
      forEach_range_with_log [of _ _ _ _ _ "[_, _]"]
      split: prod.splits sum.splits option.splits)

lemma forEach_range_acted_subseq:
  "subseq (acted (snd (snd (forEach_range filters w do ns (t, []))))) ns"
proof (induction ns arbitrary: t)
  case Nil
  show ?case by simp
next
  case (Cons x xs)
  have skip: "subseq (acted (snd (snd (forEach_range filters w do xs (t', []))))) (x # xs)" for t'
    using Cons.IH [of t'] by (rule list_emb_Cons)
  show ?case
    by (simp add: forEach_range_Cons Cons.IH skip del: forEach_range.simps
        split: sum.splits option.splits)
qed

lemma forEach_range_acted_passes:
  "Acted n \<in> set (snd (snd (forEach_range filters w do ns (t, [])))) \<Longrightarrow>
   static_pass filters n \<and>
   (subjectState filters = '''' \<or>
      Resolved n (Inr (subjectState filters))
        \<in> set (snd (snd (forEach_range filters w do ns (t, [])))))"
proof (induction ns arbitrary: t)
  case Nil
  then show ?case by simp
next
  case (Cons x xs)
  show ?case using Cons.prems Cons.IH
    by (auto simp: forEach_range_Cons simp del: forEach_range.simps
        split: sum.splits option.splits if_splits)
qed

lemma forEach_range_resolved:
  "Resolved n r \<in> set (snd (snd (forEach_range filters w do ns (t, [])))) \<Longrightarrow>
   static_pass filters n \<and> subjectState filters \<noteq> '''' \<and>
   (\<exists>t'. fst (resolveNotificationSubjectState w n t') = r)"
proof (induction ns arbitrary: t)
  case Nil
  then show ?case by simp
next
  case (Cons x xs)
  show ?case using Cons.prems Cons.IH
    by (auto simp: forEach_range_Cons simp del: forEach_range.simps
        split: sum.splits option.splits if_splits intro: exI [of _ t])
qed



lemma resolve_supported:
  assumes "GetType (GetSubject n) = ''PullRequest'' \<or> GetType (GetSubject n) = ''Issue''"
  shows "fst (resolveNotificationSubjectState w n t) \<noteq> Inl (UnhandledSubjectType ty)"
  using assms
  by (auto simp: resolveNotificationSubjectState_def Let_def split: prod.splits sum.splits)

lemma forEach_range_error_origin:
  "fst (forEach_range filters w do ns (t, [])) = Some e \<Longrightarrow>
   (\<exists>n. Resolved n (Inl e) \<in> set (snd (snd (forEach_range filters w do ns (t, []))))) \<or>
   (\<exists>n t1. fst (do n t1) = Some e)"
proof (induction ns arbitrary: t)
  case Nil
  then show ?case by simp
next
  case (Cons x xs)
  show ?case using Cons.prems Cons.IH
    by (simp add: forEach_range_Cons del: forEach_range.simps
        split: sum.splits option.splits if_splits) blast+
qed

subsection \<open>The resolver on pull requests\<close>

text \<open>
  Claim C3. For a notification whose subject type is \<open>PullRequest\<close> and whose detail
  resource was fetched (the request could be built and \<open>client.Do\<close> returned the resource
  \<open>pr\<close>), the resolver makes that one fetch and returns the resource's own state, replaced
  by \<open>merged\<close> when the resource's merged flag is true. Consequently, when the resource is
  merged, the notification passes the two earlier filters and a state filter is set, the
  pipeline run on this notification calls the action on it if and only if the state
  filter is \<open>merged\<close>.
\<close>

theorem resolve_pull_request:
  assumes "GetType (GetSubject n) = ''PullRequest''"
    and "NewRequest w (GetURL (GetSubject n)) = None"
    and "Do_reply w t (GetURL (GetSubject n)) = Inr pr"
  shows "resolveNotificationSubjectState w n t =
           (Inr (if GetMerged pr then ''merged'' else GetState pr),
            t @ [Do (GetURL (GetSubject n))]) \<and>
         (GetMerged pr \<and> static_pass filters n \<and> subjectState filters \<noteq> '''' \<longrightarrow>
            (Acted n \<in> set (snd (snd (forEach_range filters w do [n] (t, []))))
               \<longleftrightarrow> subjectState filters = ''merged''))"
proof -
  have r: "resolveNotificationSubjectState w n t =
           (Inr (if GetMerged pr then ''merged'' else GetState pr),
            t @ [Do (GetURL (GetSubject n))])"
    using assms by (simp add: resolveNotificationSubjectState_def getObject_def)
  show ?thesis
    by (auto simp: r forEach_range_Cons simp del: forEach_range.simps(2) split: option.splits)
qed

text \<open>
  The merged pull request of the example world resolves to \<open>merged\<close>; it reaches the
  action under the state filter \<open>merged\<close> and does not under the default \<open>closed\<close>.
\<close>

theorem resolve_pull_request_witness:
  "resolveNotificationSubjectState ex_world ex_pr [] = (Inr ''merged'', [Do ''u1'']) \<and>
   Acted ex_pr \<in> set (snd (snd (forEach_range (initCommands\<lparr>subjectState := ''merged''\<rparr>)
      ex_world (unsubscribe initCommands ex_world) [ex_pr] ([], [])))) \<and>
   Acted ex_pr \<notin> set (snd (snd (forEach_range initCommands
      ex_world (unsubscribe initCommands ex_world) [ex_pr] ([], []))))"
proof -
  have ty: "GetType (GetSubject ex_pr) = ''PullRequest''" by (simp add: ex_pr_def)
  have nr: "NewRequest ex_world (GetURL (GetSubject ex_pr)) = None" by (simp add: ex_world_def)
  have dr: "Do_reply ex_world [] (GetURL (GetSubject ex_pr)) =
              Inr \<lparr>GetState = ''closed'', GetMerged = True\<rparr>"
    by (simp add: ex_world_def ex_pr_def)
  have p: "static_pass (initCommands\<lparr>subjectState := ''merged''\<rparr>) ex_pr"
      "static_pass initCommands ex_pr"
    by (simp_all add: static_pass_def initCommands_def ex_pr_def)
  have s: "subjectState (initCommands\<lparr>subjectState := ''merged''\<rparr>) = ''merged''"
      "subjectState initCommands = ''closed''"
    by (simp_all add: initCommands_def)
  show ?thesis
    using resolve_pull_request [OF ty nr dr,
        of "initCommands\<lparr>subjectState := ''merged''\<rparr>" "unsubscribe initCommands ex_world"]
      resolve_pull_request [OF ty nr dr, of initCommands "unsubscribe initCommands ex_world"]
      p s
    by (simp add: ex_pr_def)
qed

subsection \<open>The unsubscribe action\<close>

text \<open>
  Claim C5. On an unread notification, with the flag \<open>unsubscribeUnread\<close> false, the
  unsubscribe action returns no error and leaves the trace as it was: no remote call and
  no output. The loop then goes on with the rest of the listing, from the same trace
  (after the resolver's fetch, when a state filter is set).
\<close>

theorem unsubscribe_unread_not_forced:
  assumes "GetUnread n" and "\<not> unsubscribeUnread filters"
  shows "unsubscribe filters w n t = (None, t) \<and>
         (static_pass filters n \<and> subjectState filters = '''' \<longrightarrow>
            forEach_range filters w (unsubscribe filters w) (n # rest) (t, g) =
            forEach_range filters w (unsubscribe filters w) rest (t, g @ [Acted n])) \<and>
         (static_pass filters n \<and> subjectState filters \<noteq> '''' \<and>
          resolveNotificationSubjectState w n t = (Inr (subjectState filters), t1) \<longrightarrow>
            forEach_range filters w (unsubscribe filters w) (n # rest) (t, g) =
            forEach_range filters w (unsubscribe filters w) rest
              (t1, g @ [Resolved n (Inr (subjectState filters)), Acted n]))"
proof -
  have skip: "unsubscribe filters w n t' = (None, t')" for t'
    using assms by (simp add: unsubscribe_def)
  show ?thesis
    by (simp add: skip static_pass_def Let_def)
qed

theorem unsubscribe_unread_not_forced_witness:
  "unsubscribe initCommands ex_world ex_pr [] = (None, []) \<and>
   forEach_range (initCommands\<lparr>subjectState := ''merged''\<rparr>) ex_world
     (unsubscribe (initCommands\<lparr>subjectState := ''merged''\<rparr>) ex_world)
     [ex_pr, ex_issue] ([], []) =
   forEach_range (initCommands\<lparr>subjectState := ''merged''\<rparr>) ex_world
     (unsubscribe (initCommands\<lparr>subjectState := ''merged''\<rparr>) ex_world) [ex_issue]
     ([Do ''u1''], [Resolved ex_pr (Inr ''merged''), Acted ex_pr])"
proof -
  have u: "GetUnread ex_pr" by (simp add: ex_pr_def)
  have f: "\<not> unsubscribeUnread initCommands" by (simp add: initCommands_def)
  have f': "\<not> unsubscribeUnread (initCommands\<lparr>subjectState := ''merged''\<rparr>)"
    by (simp add: initCommands_def)
  have r: "resolveNotificationSubjectState ex_world ex_pr [] = (Inr ''merged'', [Do ''u1''])"
    by (simp add: resolveNotificationSubjectState_def getObject_def ex_world_def ex_pr_def)
  have p: "static_pass (initCommands\<lparr>subjectState := ''merged''\<rparr>) ex_pr"
    by (simp add: static_pass_def initCommands_def ex_pr_def)
  have s: "subjectState (initCommands\<lparr>subjectState := ''merged''\<rparr>) = ''merged''" by simp
  show ?thesis
    using unsubscribe_unread_not_forced [OF u f, of ex_world "[]"]
      unsubscribe_unread_not_forced [OF u f', of ex_world "[]" "[ex_issue]" "[]" "[Do ''u1'']"]
      p r s
    by simp
qed

text \<open>
  Claim C4, as amended. On an unread notification, with the flag \<open>unsubscribeUnread\<close> true,
  the unsubscribe action first calls \<open>MarkThreadRead\<close>, once. When that call fails, the
  action returns the error wrapped as \<open>failed to mark thread as read\<close> and makes no further
  call. When it succeeds, the action calls \<open>DeleteThreadSubscription\<close>, once, after it;
  a failure is returned wrapped as \<open>failed to unsubscribe from thread\<close> with nothing
  printed, and when both calls succeed the action prints one confirmation line and returns
  no error.
\<close>

theorem unsubscribe_unread_forced:
  assumes "GetUnread n" and "unsubscribeUnread filters"
  shows "(\<forall>err. MarkThreadRead_reply w t (GetID n) = Some err \<longrightarrow>
            unsubscribe filters w n t =
              (Some (Errorf ''failed to mark thread as read'' err),
               t @ [MarkThreadRead (GetID n)])) \<and>
         (\<forall>err. MarkThreadRead_reply w t (GetID n) = None \<and>
                DeleteThreadSubscription_reply w (t @ [MarkThreadRead (GetID n)]) (GetID n)
                  = Some err \<longrightarrow>
            unsubscribe filters w n t =
              (Some (Errorf ''failed to unsubscribe from thread'' err),
               t @ [MarkThreadRead (GetID n), DeleteThreadSubscription (GetID n)])) \<and>
         (MarkThreadRead_reply w t (GetID n) = None \<and>
          DeleteThreadSubscription_reply w (t @ [MarkThreadRead (GetID n)]) (GetID n) = None \<longrightarrow>
            unsubscribe filters w n t =
              (None,
               t @ [MarkThreadRead (GetID n), DeleteThreadSubscription (GetID n),
                    Print (Unsubscribed (GetTitle (GetSubject n)) (GetID n) (GetReason n)
                             (GetURL (GetSubject n)))]))"
  using assms by (simp add: unsubscribe_def unsubscribe_delete_def Let_def)

theorem unsubscribe_unread_forced_witness:
  "unsubscribe (initCommands\<lparr>unsubscribeUnread := True\<rparr>) ex_world ex_pr [] =
     (None, [MarkThreadRead ''1'', DeleteThreadSubscription ''1'',
             Print (Unsubscribed ''Fix bug'' ''1'' ''mention'' ''u1'')]) \<and>
   unsubscribe (initCommands\<lparr>unsubscribeUnread := True\<rparr>)
     (ex_world\<lparr>DeleteThreadSubscription_reply := \<lambda>t thread. Some (External ''gone'')\<rparr>)
     ex_pr [] =
     (Some (Errorf ''failed to unsubscribe from thread'' (External ''gone'')),
      [MarkThreadRead ''1'', DeleteThreadSubscription ''1''])"
proof -
  have u: "GetUnread ex_pr" by (simp add: ex_pr_def)
  have f: "unsubscribeUnread (initCommands\<lparr>unsubscribeUnread := True\<rparr>)" by simp
  show ?thesis
    using unsubscribe_unread_forced [OF u f, of ex_world "[]"]
      unsubscribe_unread_forced [OF u f,
        of "ex_world\<lparr>DeleteThreadSubscription_reply := \<lambda>t thread. Some (External ''gone'')\<rparr>"
           "[]"]
    by (simp add: ex_world_def ex_pr_def)
qed

text \<open>
  The claim as first stated promises the \<open>DeleteThreadSubscription\<close> call for every unread
  notification under the flag. Where \<open>MarkThreadRead\<close> fails, the action returns at line
  108 and the trace holds the \<open>MarkThreadRead\<close> call alone.
\<close>

theorem unsubscribe_mark_failure_counterexample:
  "GetUnread ex_pr \<and>
   unsubscribeUnread (initCommands\<lparr>unsubscribeUnread := True\<rparr>) \<and>
   unsubscribe (initCommands\<lparr>unsubscribeUnread := True\<rparr>)
     (ex_world\<lparr>MarkThreadRead_reply := \<lambda>t thread. Some (External ''boom'')\<rparr>) ex_pr [] =
     (Some (Errorf ''failed to mark thread as read'' (External ''boom'')),
      [MarkThreadRead ''1'']) \<and>
   DeleteThreadSubscription ''1'' \<notin> set (snd (unsubscribe
     (initCommands\<lparr>unsubscribeUnread := True\<rparr>)
     (ex_world\<lparr>MarkThreadRead_reply := \<lambda>t thread. Some (External ''boom'')\<rparr>) ex_pr []))"
  by (simp add: unsubscribe_def ex_world_def ex_pr_def)

subsection \<open>The list action\<close>

text \<open>
  Claim C8. With a state filter configured, the list action prints the title with the
  filter string as the state, returns no error, and makes no call: the line is the only
  event it adds. With no state filter it calls the resolver: when the resolver returns a
  state, exactly one detail fetch was made and the action prints the title with that
  state; when the resolver returns an error, the action returns it and prints nothing.
\<close>

theorem printNotification_state:
  "(subjectState filters \<noteq> '''' \<longrightarrow>
      printNotification filters w n t =
        (None, t @ [Print (NotificationLine (GetTitle (GetSubject n)) (subjectState filters))])) \<and>
   (subjectState filters = '''' \<longrightarrow>
      (\<forall>state t1. resolveNotificationSubjectState w n t = (Inr state, t1) \<longrightarrow>
         t1 = t @ [Do (GetURL (GetSubject n))] \<and>
         printNotification filters w n t =
           (None, t1 @ [Print (NotificationLine (GetTitle (GetSubject n)) state)])) \<and>
      (\<forall>err t1. resolveNotificationSubjectState w n t = (Inl err, t1) \<longrightarrow>
         printNotification filters w n t = (Some err, t1)))"
proof -
  have fetch: "t1 = t @ [Do (GetURL (GetSubject n))]"
    if "resolveNotificationSubjectState w n t = (Inr state, t1)" for state t1
    using that
    by (auto simp: resolveNotificationSubjectState_def getObject_def Let_def
        split: if_splits option.splits sum.splits)
  show ?thesis
    using fetch by (auto simp: printNotification_def Let_def)
qed

theorem printNotification_state_witness:
  "printNotification initCommands ex_world ex_pr [] =
     (None, [Print (NotificationLine ''Fix bug'' ''closed'')]) \<and>
   printNotification (initCommands\<lparr>subjectState := ''''\<rparr>) ex_world ex_pr [] =
     (None, [Do ''u1'', Print (NotificationLine ''Fix bug'' ''merged'')]) \<and>
   printNotification (initCommands\<lparr>subjectState := ''''\<rparr>) ex_world ex_commit [] =
     (Some (UnhandledSubjectType ''Commit''), [])"
proof -
  have r: "resolveNotificationSubjectState ex_world ex_pr [] = (Inr ''merged'', [Do ''u1''])"
    by (simp add: resolveNotificationSubjectState_def getObject_def ex_world_def ex_pr_def)
  have c: "resolveNotificationSubjectState ex_world ex_commit [] =
             (Inl (UnhandledSubjectType ''Commit''), [])"
    by (simp add: resolveNotificationSubjectState_def ex_commit_def)
  have s: "subjectState initCommands = ''closed''" by (simp add: initCommands_def)
  show ?thesis
    using printNotification_state [of initCommands ex_world ex_pr "[]"]
      printNotification_state [of "initCommands\<lparr>subjectState := ''''\<rparr>" ex_world ex_pr "[]"]
      printNotification_state [of "initCommands\<lparr>subjectState := ''''\<rparr>" ex_world ex_commit "[]"]
      r c s
    by (simp add: ex_pr_def)
qed

subsection \<open>The filter pipeline\<close>

text \<open>
  Claim C1. After a pipeline pass over the fetched listing \<open>ns\<close>, the notifications the
  action was called on, in call order, form a subsequence of \<open>ns\<close>: each position of the
  listing is acted on at most once, and in listing order. Every notification acted on has
  the configured subject type, has the configured repository when a repository filter is
  set, and, when a state filter is set, was resolved by the pipeline to exactly that
  state. In particular a notification of another subject type, or of another repository
  than a set repository filter, is never acted on.
\<close>

theorem forEachNotifications_acts_on_passing:
  assumes "ListNotifications_reply w t opts = Inr ns"
    and "forEachNotifications filters w opts do t = (r, t', g)"
  shows "subseq (acted g) ns \<and>
         (\<forall>n \<in> set (acted g).
            subjectType filters = GetType (GetSubject n) \<and>
            (repository filters = '''' \<or>
             repository filters = GetFullName (GetRepository n)) \<and>
            (subjectState filters = '''' \<or>
             Resolved n (Inr (subjectState filters)) \<in> set g)) \<and>
         (\<forall>n. subjectType filters \<noteq> GetType (GetSubject n) \<longrightarrow> n \<notin> set (acted g)) \<and>
         (\<forall>n. repository filters \<noteq> '''' \<and>
              repository filters \<noteq> GetFullName (GetRepository n) \<longrightarrow> n \<notin> set (acted g))"
proof -
  have g: "g = snd (snd (forEach_range filters w do ns (t @ [ListNotifications opts], [])))"
    using assms by (simp add: forEachNotifications_def)
  have order: "subseq (acted g) ns"
    unfolding g by (rule forEach_range_acted_subseq)
  have pass: "static_pass filters n \<and>
      (subjectState filters = '''' \<or> Resolved n (Inr (subjectState filters)) \<in> set g)"
    if "n \<in> set (acted g)" for n
    using that forEach_range_acted_passes [of n filters w do ns "t @ [ListNotifications opts]"]
    unfolding g set_acted by simp
  show ?thesis
    using order pass by (auto simp: static_pass_def)
qed

theorem forEachNotifications_acts_on_passing_witness:
  "forEachNotifications (initCommands\<lparr>subjectState := ''merged''\<rparr>) ex_world False
     (printNotification (initCommands\<lparr>subjectState := ''merged''\<rparr>) ex_world) [] =
     (None,
      [ListNotifications False, Do ''u1'', Print (NotificationLine ''Fix bug'' ''merged'')],
      [Resolved ex_pr (Inr ''merged''), Acted ex_pr]) \<and>
   subseq (acted [Resolved ex_pr (Inr ''merged''), Acted ex_pr]) [ex_pr, ex_commit, ex_issue] \<and>
   ex_commit \<notin> set (acted [Resolved ex_pr (Inr ''merged''), Acted ex_pr]) \<and>
   ex_issue \<notin> set (acted [Resolved ex_pr (Inr ''merged''), Acted ex_pr])"
proof -
  have l: "ListNotifications_reply ex_world [] False = Inr [ex_pr, ex_commit, ex_issue]"
    by (simp add: ex_world_def)
  have r: "resolveNotificationSubjectState ex_world ex_pr t = (Inr ''merged'', t @ [Do ''u1''])"
    for t
    by (simp add: resolveNotificationSubjectState_def getObject_def ex_world_def ex_pr_def)
  have ty: "GetType (GetSubject ex_pr) = ''PullRequest''"
      "GetType (GetSubject ex_commit) = ''Commit''"
      "GetType (GetSubject ex_issue) = ''Issue''"
      "GetFullName (GetRepository ex_pr) = ''a/b''"
      "GetTitle (GetSubject ex_pr) = ''Fix bug''"
    by (simp_all add: ex_pr_def ex_commit_def ex_issue_def)
  have run: "forEachNotifications (initCommands\<lparr>subjectState := ''merged''\<rparr>) ex_world False
     (printNotification (initCommands\<lparr>subjectState := ''merged''\<rparr>) ex_world) [] =
     (None,
      [ListNotifications False, Do ''u1'', Print (NotificationLine ''Fix bug'' ''merged'')],
      [Resolved ex_pr (Inr ''merged''), Acted ex_pr])"
    by (simp add: forEachNotifications_def l r ty printNotification_def initCommands_def)
  show ?thesis
    using forEachNotifications_acts_on_passing [OF l run] run
    by (simp add: ty initCommands_def)
qed



text \<open>
  Claim C10. In a pipeline pass the resolver is called only on notifications whose subject
  type is the configured subject-type filter. Hence, when that filter is \<open>PullRequest\<close>
  or \<open>Issue\<close>, no call of the resolver made by the pipeline returns the
  unhandled-subject-type error, and if the pass itself returns that error, it is the
  action that returned it.
\<close>

theorem resolver_only_on_filter_type:
  assumes "forEachNotifications filters w opts do t = (r, t', g)"
  shows "(\<forall>n res. Resolved n res \<in> set g \<longrightarrow> GetType (GetSubject n) = subjectType filters) \<and>
         (subjectType filters = ''PullRequest'' \<or> subjectType filters = ''Issue'' \<longrightarrow>
            (\<forall>n res ty. Resolved n res \<in> set g \<longrightarrow> res \<noteq> Inl (UnhandledSubjectType ty)) \<and>
            (\<forall>ty. r = Some (UnhandledSubjectType ty) \<longrightarrow>
               (\<exists>n t1. fst (do n t1) = Some (UnhandledSubjectType ty))))"
proof (cases "ListNotifications_reply w t opts")
  case (Inl err)
  then show ?thesis using assms by (auto simp: forEachNotifications_def)
next
  case (Inr ns)
  have run: "forEach_range filters w do ns (t @ [ListNotifications opts], []) = (r, t', g)"
    using assms Inr by (simp add: forEachNotifications_def)
  have res: "static_pass filters n \<and> (\<exists>t1. fst (resolveNotificationSubjectState w n t1) = res)"
    if "Resolved n res \<in> set g" for n res
    using that forEach_range_resolved [of n res filters w do ns "t @ [ListNotifications opts]"]
    by (simp add: run)
  have ty: "GetType (GetSubject n) = subjectType filters" if "Resolved n res \<in> set g" for n res
    using res [OF that] by (simp add: static_pass_def)
  have un: "res \<noteq> Inl (UnhandledSubjectType ty)"
    if "Resolved n res \<in> set g"
      and "subjectType filters = ''PullRequest'' \<or> subjectType filters = ''Issue''" for n res ty
    using res [OF that(1)] ty [OF that(1)] that(2) resolve_supported [of n w _ ty] by auto
  have origin: "\<exists>n t1. fst (do n t1) = Some (UnhandledSubjectType ty)"
    if "r = Some (UnhandledSubjectType ty)"
      and "subjectType filters = ''PullRequest'' \<or> subjectType filters = ''Issue''" for ty
    using forEach_range_error_origin [of filters w do ns "t @ [ListNotifications opts]"
        "UnhandledSubjectType ty"] un [OF _ that(2)] that(1)
    by (simp add: run) blast
  show ?thesis
    using ty un origin by blast
qed

theorem resolver_only_on_filter_type_witness:
  "forEachNotifications initCommands ex_world True (unsubscribe initCommands ex_world) [] =
     (None, [ListNotifications True, Do ''u1''], [Resolved ex_pr (Inr ''merged'')]) \<and>
   GetType (GetSubject ex_pr) = subjectType initCommands \<and>
   Inr ''merged'' \<noteq> (Inl (UnhandledSubjectType ''Commit'') :: error + string)"
proof -
  have ty: "GetType (GetSubject ex_pr) = ''PullRequest''"
      "GetType (GetSubject ex_commit) = ''Commit''"
      "GetType (GetSubject ex_issue) = ''Issue''"
    by (simp_all add: ex_pr_def ex_commit_def ex_issue_def)
  have r: "resolveNotificationSubjectState ex_world ex_pr t = (Inr ''merged'', t @ [Do ''u1''])"
    for t
    by (simp add: resolveNotificationSubjectState_def getObject_def ex_world_def ex_pr_def)
  have l: "ListNotifications_reply ex_world [] True = Inr [ex_pr, ex_commit, ex_issue]"
    by (simp add: ex_world_def)
  have run: "forEachNotifications initCommands ex_world True
      (unsubscribe initCommands ex_world) [] =
     (None, [ListNotifications True, Do ''u1''], [Resolved ex_pr (Inr ''merged'')])"
    by (simp add: forEachNotifications_def l ty r initCommands_def)
  have f: "subjectType initCommands = ''PullRequest''" by (simp add: initCommands_def)
  show ?thesis
    using resolver_only_on_filter_type [OF run] run f
    by (simp add: ty)
qed

text \<open>
  Claim C7, as amended. Let a state filter be set and the listing hold a notification \<open>n\<close>
  of a subject type other than \<open>PullRequest\<close> and \<open>Issue\<close> (such as \<open>Commit\<close>). If the
  subject-type filter is that very type, the repository filter lets \<open>n\<close> through and the
  loop reaches \<open>n\<close> without error, the pass aborts at \<open>n\<close> with the unhandled-subject-type
  error: the resolver was called on \<open>n\<close>, the action was not, and nothing after \<open>n\<close> is
  looked at. If the subject-type filter is another type (the default \<open>PullRequest\<close>, say),
  \<open>n\<close> is skipped: the pass is the pass over the listing without \<open>n\<close>.
\<close>

theorem unsupported_subject_type_aborts:
  assumes "ListNotifications_reply w t opts = Inr (xs @ n # ys)"
    and "subjectState filters \<noteq> ''''"
    and "GetType (GetSubject n) \<noteq> ''PullRequest''"
    and "GetType (GetSubject n) \<noteq> ''Issue''"
  shows "(static_pass filters n \<and>
          forEach_range filters w do xs (t @ [ListNotifications opts], []) = (None, t1, g1) \<longrightarrow>
            forEachNotifications filters w opts do t =
              (Some (UnhandledSubjectType (GetType (GetSubject n))), t1,
               g1 @ [Resolved n (Inl (UnhandledSubjectType (GetType (GetSubject n))))])) \<and>
         (subjectType filters \<noteq> GetType (GetSubject n) \<longrightarrow>
            forEachNotifications filters w opts do t =
              forEach_range filters w do (xs @ ys) (t @ [ListNotifications opts], []))"
proof -
  have r: "resolveNotificationSubjectState w n t' =
             (Inl (UnhandledSubjectType (GetType (GetSubject n))), t')" for t'
    using assms(3,4) by (simp add: resolveNotificationSubjectState_def)
  have at_n: "forEach_range filters w do (xs @ n # ys) s =
     (case forEach_range filters w do xs s of
        (Some err, s') \<Rightarrow> (Some err, s')
      | (None, s') \<Rightarrow> forEach_range filters w do (n # ys) s')" for s
    by (rule forEach_range_append)
  have abort: "forEach_range filters w do (n # ys) (t1, g1) =
      (Some (UnhandledSubjectType (GetType (GetSubject n))), t1,
       g1 @ [Resolved n (Inl (UnhandledSubjectType (GetType (GetSubject n))))])"
    if "static_pass filters n"
    using that assms(2) by (auto simp: static_pass_def r)
  have skip: "forEach_range filters w do (n # ys) s = forEach_range filters w do ys s"
    if "subjectType filters \<noteq> GetType (GetSubject n)" for s
    using that by (cases s) simp
  show ?thesis
  proof (intro conjI impI)
    assume a: "static_pass filters n \<and>
      forEach_range filters w do xs (t @ [ListNotifications opts], []) = (None, t1, g1)"
    show "forEachNotifications filters w opts do t =
              (Some (UnhandledSubjectType (GetType (GetSubject n))), t1,
               g1 @ [Resolved n (Inl (UnhandledSubjectType (GetType (GetSubject n))))])"
      using a abort assms(1)
      by (simp add: forEachNotifications_def at_n del: forEach_range.simps)
  next
    assume a: "subjectType filters \<noteq> GetType (GetSubject n)"
    show "forEachNotifications filters w opts do t =
              forEach_range filters w do (xs @ ys) (t @ [ListNotifications opts], [])"
      using assms(1)
      by (simp add: forEachNotifications_def at_n skip [OF a] forEach_range_append [of _ _ _ xs ys]
          del: forEach_range.simps split: prod.splits option.splits)
  qed
qed

theorem unsupported_subject_type_aborts_witness:
  "forEachNotifications (initCommands\<lparr>subjectType := ''Commit''\<rparr>) ex_world True
     (unsubscribe (initCommands\<lparr>subjectType := ''Commit''\<rparr>) ex_world) [] =
     (Some (UnhandledSubjectType ''Commit''), [ListNotifications True],
      [Resolved ex_commit (Inl (UnhandledSubjectType ''Commit''))]) \<and>
   forEachNotifications initCommands ex_world True (unsubscribe initCommands ex_world) [] =
     forEach_range initCommands ex_world (unsubscribe initCommands ex_world) [ex_pr, ex_issue]
       ([ListNotifications True], [])"
proof -
  have l: "ListNotifications_reply ex_world [] True = Inr ([ex_pr] @ ex_commit # [ex_issue])"
    by (simp add: ex_world_def)
  have ty: "GetType (GetSubject ex_pr) = ''PullRequest''"
      "GetType (GetSubject ex_commit) = ''Commit''"
      "GetFullName (GetRepository ex_commit) = ''a/b''"
    by (simp_all add: ex_pr_def ex_commit_def)
  have ne: "GetType (GetSubject ex_commit) \<noteq> ''PullRequest''"
      "GetType (GetSubject ex_commit) \<noteq> ''Issue''"
    by (simp_all add: ty)
  have s: "subjectState (initCommands\<lparr>subjectType := ''Commit''\<rparr>) \<noteq> ''''"
      "subjectState initCommands \<noteq> ''''"
    by (simp_all add: initCommands_def)
  have p: "static_pass (initCommands\<lparr>subjectType := ''Commit''\<rparr>) ex_commit"
    by (simp add: static_pass_def initCommands_def ty)
  have pre: "forEach_range (initCommands\<lparr>subjectType := ''Commit''\<rparr>) ex_world
      (unsubscribe (initCommands\<lparr>subjectType := ''Commit''\<rparr>) ex_world) [ex_pr]
      ([] @ [ListNotifications True], []) = (None, [ListNotifications True], [])"
    by (simp add: ty)
  have d: "subjectType initCommands \<noteq> GetType (GetSubject ex_commit)"
    by (simp add: initCommands_def ty)
  show ?thesis
    using unsupported_subject_type_aborts [OF l s(1) ne,
        of "unsubscribe (initCommands\<lparr>subjectType := ''Commit''\<rparr>) ex_world"
           "[ListNotifications True]" "[]"]
      unsupported_subject_type_aborts [OF l s(2) ne, of "unsubscribe initCommands ex_world"]
      p pre d
    by (simp add: ty)
qed

text \<open>
  The claim as first stated has the pass abort for every listing that holds a commit
  notification. Under the default filters (subject type \<open>PullRequest\<close>, state \<open>closed\<close>)
  the commit is rejected by the subject-type test at line 134 before the resolver is
  reached, and the pass over the example listing returns no error.
\<close>

theorem commit_skipped_counterexample:
  "GetType (GetSubject ex_commit) = ''Commit'' \<and>
   ListNotifications_reply ex_world [] True = Inr [ex_pr, ex_commit, ex_issue] \<and>
   subjectState initCommands = ''closed'' \<and>
   forEachNotifications initCommands ex_world True (unsubscribe initCommands ex_world) [] =
     (None, [ListNotifications True, Do ''u1''], [Resolved ex_pr (Inr ''merged'')])"
proof -
  have ty: "GetType (GetSubject ex_pr) = ''PullRequest''"
      "GetType (GetSubject ex_commit) = ''Commit''"
      "GetType (GetSubject ex_issue) = ''Issue''"
    by (simp_all add: ex_pr_def ex_commit_def ex_issue_def)
  have r: "resolveNotificationSubjectState ex_world ex_pr t = (Inr ''merged'', t @ [Do ''u1''])"
    for t
    by (simp add: resolveNotificationSubjectState_def getObject_def ex_world_def ex_pr_def)
  have l: "ListNotifications_reply ex_world [] True = Inr [ex_pr, ex_commit, ex_issue]"
    by (simp add: ex_world_def)
  show ?thesis
    by (simp add: forEachNotifications_def l ty r initCommands_def)
qed

subsection \<open>The commands\<close>

lemma listings_append: "listings (xs @ ys) = listings xs @ listings ys"
  by (induction xs rule: listings.induct) simp_all

lemma listings_resolve:
  "listings (snd (resolveNotificationSubjectState w n t)) = listings t"
  by (simp add: resolveNotificationSubjectState_def getObject_def Let_def listings_append
      split: option.splits sum.splits)

lemma listings_printNotification:
  "listings (snd (printNotification filters w n t)) = listings t"
  using listings_resolve [of w n t]
  by (auto simp: printNotification_def Let_def listings_append split: prod.splits sum.splits)

lemma listings_unsubscribe_delete:
  "listings (snd (unsubscribe_delete w n t)) = listings t"
  by (simp add: unsubscribe_delete_def Let_def listings_append split: option.splits)

lemma listings_unsubscribe:
  "listings (snd (unsubscribe filters w n t)) = listings t"
  by (simp add: unsubscribe_def listings_unsubscribe_delete listings_append split: option.splits)

lemma listings_forEach_range:
  assumes "\<And>n t. listings (snd (do n t)) = listings t"
  shows "listings (fst (snd (forEach_range filters w do ns (t, [])))) = listings t"
proof (induction ns arbitrary: t)
  case Nil
  show ?case by simp
next
  case (Cons x xs)
  show ?case
    by (simp add: forEach_range_Cons Cons.IH assms listings_resolve del: forEach_range.simps
        split: sum.splits option.splits)
qed

lemma listings_forEachNotifications:
  assumes "\<And>n t. listings (snd (do n t)) = listings t"
  shows "listings (fst (snd (forEachNotifications filters w opts do t))) = listings t @ [opts]"
  using listings_forEach_range [of do filters w _ "t @ [ListNotifications opts]", OF assms]
  by (simp add: forEachNotifications_def listings_append split: sum.splits)

text \<open>
  Claim C9. Whatever the filters (so whatever the flags, the flag for unread notifications
  included), the listing fetches of a run of \<open>unsubscribe\<close> are exactly one fetch with
  \<open>All = true\<close>, once the client exists, and none when the token is missing. The one
  fetch of a run of \<open>list\<close> carries the value of the \<open>show-read\<close> flag, whose default is
  false.
\<close>

theorem unsubscribe_lists_all:
  "listings (snd (runUnsubscribe filters w t)) =
     listings t @ (if GITHUB_TOKEN w = '''' then [] else [True]) \<and>
   listings (snd (runList filters w t)) =
     listings t @ (if GITHUB_TOKEN w = '''' then [] else [listRead filters]) \<and>
   listRead initCommands = False"
proof -
  have u: "listings (fst (snd (forEachNotifications filters w True (unsubscribe filters w) t)))
             = listings t @ [True]"
    by (rule listings_forEachNotifications) (rule listings_unsubscribe)
  have l: "listings (fst (snd (forEachNotifications filters w (listRead filters)
             (printNotification filters w) t))) = listings t @ [listRead filters]"
    by (rule listings_forEachNotifications) (rule listings_printNotification)
  show ?thesis
    using u l
    by (auto simp: runUnsubscribe_def runList_def mustGHClient_def listings_append
        initCommands_def split: prod.splits option.splits)
qed

theorem unsubscribe_lists_all_witness:
  "listings (snd (runUnsubscribe (initCommands\<lparr>unsubscribeUnread := True\<rparr>) ex_world [])) = [True] \<and>
   listings (snd (runUnsubscribe initCommands ex_world [])) = [True] \<and>
   listings (snd (runList initCommands ex_world [])) = [False] \<and>
   listings (snd (runList (initCommands\<lparr>listRead := True\<rparr>) ex_world [])) = [True]"
  using unsubscribe_lists_all [of "initCommands\<lparr>unsubscribeUnread := True\<rparr>" ex_world "[]"]
    unsubscribe_lists_all [of initCommands ex_world "[]"]
    unsubscribe_lists_all [of "initCommands\<lparr>listRead := True\<rparr>" ex_world "[]"]
  by (simp add: ex_world_def)

text \<open>
  Claim C6, as amended. In a run of \<open>list\<close> or \<open>unsubscribe\<close> that has a token: if the
  pipeline returns an error, the handler prints it (after \<open>Failed to process
  notifications\<close>) as the last output and the process ends with status 0; if the pipeline
  returns no error, nothing more is printed and the status is 0. The status is other than
  0 exactly when command dispatch fails or a handler finds no token.
\<close>

theorem pipeline_error_exit_status:
  "(GITHUB_TOKEN w \<noteq> '''' \<longrightarrow>
      (\<forall>err t1 g.
         forEachNotifications filters w (listRead filters) (printNotification filters w) t
           = (Some err, t1, g) \<longrightarrow>
         main ListCommand filters w t = (0, t1 @ [Print (FailedToProcess err)])) \<and>
      (\<forall>t1 g.
         forEachNotifications filters w (listRead filters) (printNotification filters w) t
           = (None, t1, g) \<longrightarrow>
         main ListCommand filters w t = (0, t1)) \<and>
      (\<forall>err t1 g.
         forEachNotifications filters w True (unsubscribe filters w) t = (Some err, t1, g) \<longrightarrow>
         main UnsubscribeCommand filters w t = (0, t1 @ [Print (FailedToProcess err)])) \<and>
      (\<forall>t1 g.
         forEachNotifications filters w True (unsubscribe filters w) t = (None, t1, g) \<longrightarrow>
         main UnsubscribeCommand filters w t = (0, t1))) \<and>
   (fst (main cmd filters w t) \<noteq> 0 \<longleftrightarrow>
      (\<exists>err. cmd = UsageError err) \<or>
      ((cmd = ListCommand \<or> cmd = UnsubscribeCommand) \<and> GITHUB_TOKEN w = ''''))"
  by (cases cmd)
    (auto simp: main_def Execute_def runList_def runUnsubscribe_def mustGHClient_def
      split: prod.splits option.splits)

theorem pipeline_error_exit_status_witness:
  "main ListCommand initCommands
     (ex_world\<lparr>ListNotifications_reply := \<lambda>t all. Inl (External ''timeout'')\<rparr>) [] =
     (0, [ListNotifications False,
          Print (FailedToProcess (Errorf ''failed to list notifications'' (External ''timeout'')))]) \<and>
   main UnsubscribeCommand initCommands ex_world [] = (0, [ListNotifications True, Do ''u1'']) \<and>
   fst (main UnsubscribeCommand initCommands (ex_world\<lparr>GITHUB_TOKEN := ''''\<rparr>) []) \<noteq> 0"
proof -
  define W where "W = ex_world\<lparr>ListNotifications_reply := \<lambda>t all. Inl (External ''timeout'')\<rparr>"
  have tok: "GITHUB_TOKEN W \<noteq> ''''" "GITHUB_TOKEN ex_world \<noteq> ''''"
    by (simp_all add: W_def ex_world_def)
  have ty: "GetType (GetSubject ex_pr) = ''PullRequest''"
      "GetType (GetSubject ex_commit) = ''Commit''"
      "GetType (GetSubject ex_issue) = ''Issue''"
    by (simp_all add: ex_pr_def ex_commit_def ex_issue_def)
  have r: "resolveNotificationSubjectState ex_world ex_pr t = (Inr ''merged'', t @ [Do ''u1''])"
    for t
    by (simp add: resolveNotificationSubjectState_def getObject_def ex_world_def ex_pr_def)
  have l: "ListNotifications_reply ex_world [] True = Inr [ex_pr, ex_commit, ex_issue]"
    by (simp add: ex_world_def)
  have f: "listRead initCommands = False" by (simp add: initCommands_def)
  have run1: "forEachNotifications initCommands W (listRead initCommands)
      (printNotification initCommands W) [] =
      (Some (Errorf ''failed to list notifications'' (External ''timeout'')),
       [ListNotifications False], [])"
    by (simp add: forEachNotifications_def W_def f)
  have run2: "forEachNotifications initCommands ex_world True
      (unsubscribe initCommands ex_world) [] =
     (None, [ListNotifications True, Do ''u1''], [Resolved ex_pr (Inr ''merged'')])"
    by (simp add: forEachNotifications_def l ty r initCommands_def)
  have a: "main ListCommand initCommands W [] =
     (0, [ListNotifications False,
          Print (FailedToProcess (Errorf ''failed to list notifications'' (External ''timeout'')))])"
    using pipeline_error_exit_status [of W initCommands "[]", THEN conjunct1, rule_format,
        OF tok(1), THEN conjunct1, rule_format, OF run1]
    by simp
  have b: "main UnsubscribeCommand initCommands ex_world [] =
      (0, [ListNotifications True, Do ''u1''])"
    using pipeline_error_exit_status [of ex_world initCommands "[]", THEN conjunct1, rule_format,
        OF tok(2), THEN conjunct2, THEN conjunct2, THEN conjunct2, rule_format, OF run2]
    by simp
  have c: "fst (main UnsubscribeCommand initCommands (ex_world\<lparr>GITHUB_TOKEN := ''''\<rparr>) []) \<noteq> 0"
    using pipeline_error_exit_status [of "ex_world\<lparr>GITHUB_TOKEN := ''''\<rparr>" initCommands "[]"
        UnsubscribeCommand, THEN conjunct2]
    by simp
  show ?thesis
    using a b c unfolding W_def by simp
qed

text \<open>
  The claim as first stated has a non-zero status whenever the pipeline returns an error.
  The handlers are \<open>Run\<close> functions that print the error and return (lines 94 to 96 and
  121 to 123), so \<open>Execute\<close> returns nil and \<open>main\<close> ends with status 0: here the
  listing fetch fails, the pipeline returns the error, and the status is 0.
\<close>

theorem pipeline_error_exit_zero_counterexample:
  "fst (forEachNotifications initCommands
          (ex_world\<lparr>ListNotifications_reply := \<lambda>t all. Inl (External ''timeout'')\<rparr>)
          (listRead initCommands)
          (printNotification initCommands
             (ex_world\<lparr>ListNotifications_reply := \<lambda>t all. Inl (External ''timeout'')\<rparr>)) []) =
     Some (Errorf ''failed to list notifications'' (External ''timeout'')) \<and>
   fst (main ListCommand initCommands
          (ex_world\<lparr>ListNotifications_reply := \<lambda>t all. Inl (External ''timeout'')\<rparr>) []) = 0"
  by (simp add: main_def Execute_def runList_def mustGHClient_def forEachNotifications_def
      ex_world_def)


end
